theory Spec2Isabelle
  imports Complex_Main
begin

section \<open>JavaScript values used by the components\<close>

text \<open>
  A JavaScript string is a sequence of UTF-16 code units. The localized texts of the
  source contain code units above 255 (U+0130, U+0131, U+2019, ...), and
  \<open>String.prototype.trim\<close> removes code units above 255 as well, so a string is a
  list of code units and an ASCII literal is lifted with \<open>lit\<close>.
\<close>

type_synonym jsstring = "nat list"

definition lit :: "string \<Rightarrow> jsstring" where
  "lit cs = map of_char cs"

text \<open>
  The values a JSON field can hold once parsed, plus \<open>undefined\<close> for a field that is
  missing. \<open>JSON.parse\<close> produces no NaN, so a number is a real.
\<close>

datatype jsval =
    JUndefined
  | JNull
  | JBool bool
  | JNum real
  | JStr jsstring
  | JArr "jsval list"
  | JObj "(jsstring \<times> jsval) list"

datatype jstype = TUndefined | TObject | TBoolean | TNumber | TString

text \<open>The \<open>typeof\<close> operator (\<open>typeof null\<close> is \<open>"object"\<close>).\<close>

definition typeof :: "jsval \<Rightarrow> jstype" where
  "typeof v =
     (case v of
        JUndefined \<Rightarrow> TUndefined
      | JNull \<Rightarrow> TObject
      | JBool b \<Rightarrow> TBoolean
      | JNum x \<Rightarrow> TNumber
      | JStr s \<Rightarrow> TString
      | JArr xs \<Rightarrow> TObject
      | JObj kvs \<Rightarrow> TObject)"

text \<open>ToBoolean: \<open>undefined\<close>, \<open>null\<close>, \<open>false\<close>, \<open>0\<close> and \<open>""\<close> are falsy.\<close>

definition truthy :: "jsval \<Rightarrow> bool" where
  "truthy v =
     (case v of
        JUndefined \<Rightarrow> False
      | JNull \<Rightarrow> False
      | JBool b \<Rightarrow> b
      | JNum x \<Rightarrow> x \<noteq> 0
      | JStr s \<Rightarrow> s \<noteq> []
      | JArr xs \<Rightarrow> True
      | JObj kvs \<Rightarrow> True)"

text \<open>\<open>a || b\<close> on values, and on an optional string (\<open>x?: string\<close>).\<close>

definition js_or :: "jsval \<Rightarrow> jsval \<Rightarrow> jsval" where
  "js_or a b = (if truthy a then a else b)"

definition str_or :: "jsstring option \<Rightarrow> jsstring \<Rightarrow> jsstring" where
  "str_or x d = (case x of None \<Rightarrow> d | Some t \<Rightarrow> if t \<noteq> [] then t else d)"

text \<open>
  \<open>String.prototype.trim\<close> strips WhiteSpace and LineTerminator code units from both
  ends: TAB, LF, VT, FF, CR, SP, NBSP, U+1680, U+2000..U+200A, U+2028, U+2029, U+202F,
  U+205F, U+3000 and U+FEFF.
\<close>

definition is_js_space :: "nat \<Rightarrow> bool" where
  "is_js_space c =
     (c \<in> {9, 10, 11, 12, 13, 32, 160, 5760, 8232, 8233, 8239, 8287, 12288, 65279}
      \<or> (8192 \<le> c \<and> c \<le> 8202))"

definition trim :: "jsstring \<Rightarrow> jsstring" where
  "trim s = rev (dropWhile is_js_space (rev (dropWhile is_js_space s)))"

text \<open>The decimal digits of a number, as a template literal renders \<open>${res.status}\<close>.\<close>

fun decimal :: "nat \<Rightarrow> jsstring" where
  "decimal n = (if n < 10 then [48 + n] else decimal (n div 10) @ [48 + n mod 10])"

declare decimal.simps [simp del]

section \<open>Data model\<close>

datatype Lang = Tr | En

text \<open>The entries of the \<open>COPY\<close> table that the component puts into its state.\<close>

record Copy =
  chatAgent1 :: jsstring
  chatUser :: jsstring
  chatAgent2 :: jsstring

definition COPY :: "Lang \<Rightarrow> Copy" where
  "COPY l =
     (case l of
        Tr \<Rightarrow>
          \<lparr>chatAgent1 =
             lit ''Merhaba! Sana en iyi mekanlar'' @ [305]
             @ lit '' bulabilirim. Nerede arayal'' @ [305] @ lit ''m?'',
           chatUser =
             lit ''Kad'' @ [305] @ lit ''k'' @ [246] @ lit ''y'' @ [8217]
             @ lit ''de sakin kahveciler.'',
           chatAgent2 =
             lit ''Haritada i'' @ [351] @ lit ''aretledim. '' @ [304]
             @ lit ''stersen fiyat aral'' @ [305] @ [287] @ [305]
             @ lit '' da ekleyebilirim.''\<rparr>
      | En \<Rightarrow>
          \<lparr>chatAgent1 = lit ''Hi! I can find the best spots for you. Where should we look?'',
           chatUser = lit ''Quiet coffee places in Kad'' @ [305] @ lit ''k'' @ [246] @ lit ''y.'',
           chatAgent2 = lit ''I pinned them on the map. Want to add a price range?''\<rparr>)"

datatype Role = User | Agent

record ChatMessage =
  role :: Role
  text_msg :: jsstring

record ModelOption =
  id_opt :: jsstring
  name_opt :: jsstring

text \<open>
  \<open>MapCenter\<close> and \<open>Place\<close> share the fields \<open>lat\<close> and \<open>lon\<close>. The source
  tests both with \<open>typeof\<close> and with truthiness at run time, so they hold any value a
  JSON body can carry there, not only what the type annotation promises.
\<close>

record LatLon =
  lat :: jsval
  lon :: jsval

record MapCenter = LatLon +
  label :: "jsstring option"

record Place = LatLon +
  name :: jsstring
  address :: "jsstring option"

datatype Status = Idle | Thinking | Error

section \<open>MapView\<close>

record Marker =
  position :: "jsval \<times> jsval"
  popup_title :: jsstring
  popup_detail :: "jsstring option"

record MapState =
  view_center :: "jsval \<times> jsval"
  view_zoom :: nat

datatype Rendered = Skeleton | MapContainer "jsval \<times> jsval" nat "Marker list"

text \<open>The fallback coordinate written out at lines 71 and 95 of the component.\<close>

definition DEFAULT_CENTER :: "jsval \<times> jsval" where
  "DEFAULT_CENTER = (JNum 41.0082, JNum 28.9784)"

text \<open>\<open>center?.lat\<close> and \<open>center?.lon\<close> on \<open>center?: MapCenter | null\<close>.\<close>

definition opt_lat :: "MapCenter option \<Rightarrow> jsval" where
  "opt_lat c = (case c of None \<Rightarrow> JUndefined | Some m \<Rightarrow> lat m)"

definition opt_lon :: "MapCenter option \<Rightarrow> jsval" where
  "opt_lon c = (case c of None \<Rightarrow> JUndefined | Some m \<Rightarrow> lon m)"

text \<open>
  \<open>MapUpdater\<close>: the effect that runs when the center changes;
  \<open>if (center?.lat && center?.lon) map.setView([center.lat, center.lon], 13)\<close>.
\<close>

definition MapUpdater :: "MapCenter option \<Rightarrow> MapState \<Rightarrow> MapState" where
  "MapUpdater c m =
     (if truthy (opt_lat c) \<and> truthy (opt_lon c)
      then \<lparr>view_center = (opt_lat c, opt_lon c), view_zoom = 13\<rparr>
      else m)"

text \<open>
  The marker list:
  \<open>(places || []).filter((p) => typeof p.lat === "number" && typeof p.lon === "number")\<close>.
\<close>

definition markers :: "Place list option \<Rightarrow> Place list" where
  "markers places =
     filter (\<lambda>p. typeof (lat p) = TNumber \<and> typeof (lon p) = TNumber)
       (case places of None \<Rightarrow> [] | Some ps \<Rightarrow> ps)"

text \<open>The \<open>center\<close> prop: \<open>[center?.lat || 41.0082, center?.lon || 28.9784]\<close>.\<close>

definition containerCenter :: "MapCenter option \<Rightarrow> jsval \<times> jsval" where
  "containerCenter c =
     (js_or (opt_lat c) (JNum 41.0082), js_or (opt_lon c) (JNum 28.9784))"

text \<open>One \<open>Marker\<close> element per place; the address line only when it is truthy.\<close>

definition placeMarker :: "Place \<Rightarrow> Marker" where
  "placeMarker p =
     \<lparr>position = (lat p, lon p),
      popup_title = name p,
      popup_detail = (case address p of None \<Rightarrow> None
                      | Some a \<Rightarrow> if a \<noteq> [] then Some a else None)\<rparr>"

definition defaultMarker :: Marker where
  "defaultMarker =
     \<lparr>position = (JNum 41.0082, JNum 28.9784),
      popup_title = [304] @ lit ''stanbul merkez'',
      popup_detail = None\<rparr>"

definition renderMarkers :: "Place list option \<Rightarrow> Marker list" where
  "renderMarkers places =
     (if length (markers places) > 0 then map placeMarker (markers places)
      else [defaultMarker])"

text \<open>What \<open>MapView\<close> returns: the skeleton until mounted, the map afterwards.\<close>

definition MapView :: "bool \<Rightarrow> MapCenter option \<Rightarrow> Place list option \<Rightarrow> Rendered" where
  "MapView mounted c places =
     (if \<not> mounted then Skeleton
      else MapContainer (containerCenter c) 12 (renderMarkers places))"

text \<open>
  The view of a freshly mounted map: the \<open>center\<close> and \<open>zoom\<close> props, then the first
  run of the \<open>MapUpdater\<close> effect.
\<close>

definition mountView :: "MapCenter option \<Rightarrow> MapState" where
  "mountView c = MapUpdater c \<lparr>view_center = containerCenter c, view_zoom = 12\<rparr>"

section \<open>HomeClient\<close>

record state =
  lang :: Lang
  hasInteracted :: bool
  messages :: "ChatMessage list"
  input :: jsstring
  modelName :: jsstring
  modelOptions :: "ModelOption list"
  modelsLoading :: bool
  modelsError :: "jsstring option"
  modelOpen :: bool
  modelQuery :: jsstring
  mapCenter :: "MapCenter option"
  mapPlaces :: "Place list"
  status :: Status
  error :: "jsstring option"

text \<open>The \<open>useState\<close> defaults.\<close>

definition initial_state :: state where
  "initial_state =
     \<lparr>lang = En, hasInteracted = False, messages = [], input = [],
      modelName = lit ''openai/gpt-4o-mini'', modelOptions = [],
      modelsLoading = False, modelsError = None, modelOpen = False, modelQuery = [],
      mapCenter = None, mapPlaces = [], status = Idle, error = None\<rparr>"

subsection \<open>What a network call can come back with\<close>

text \<open>
  A value caught by \<open>catch (err)\<close>: an \<open>Error\<close> with its message, or anything else.
\<close>

datatype thrown = ErrorObj jsstring | NonError

text \<open>
  \<open>res.json()\<close> rejects with a SyntaxError (its message is kept) when the body is not
  JSON, or resolves to the parsed value. The parsed value is the record of the fields the
  caller reads: a field that is missing reads as \<open>undefined\<close>. The JSON value
  \<open>null\<close>, the one parsed value of which no field can be read, is not a body of
  this type; it is a reply of its own, below.
\<close>

datatype 'a body = Malformed jsstring | Json 'a

text \<open>
  \<open>fetch\<close> rejects (network failure), or resolves to a response with a status code
  and a body. \<open>res.ok\<close> is true for the status codes 200 to 299.
\<close>

datatype 'a fetch_outcome = Rejected thrown | Response nat "'a body"

text \<open>
  Everything a call can come back with: a response whose body is the JSON value
  \<open>null\<close>, given by its status code and the message of the TypeError that the engine
  raises when a field of \<open>null\<close> is read, or one of the outcomes above.
\<close>

datatype 'a reply = NullResponse nat jsstring | Outcome "'a fetch_outcome"

definition ok :: "nat \<Rightarrow> bool" where
  "ok st = (200 \<le> st \<and> st \<le> 299)"

text \<open>\<open>err instanceof Error ? err.message : fallback\<close>.\<close>

definition message_of :: "thrown \<Rightarrow> jsstring \<Rightarrow> jsstring" where
  "message_of err fallback = (case err of ErrorObj m \<Rightarrow> m | NonError \<Rightarrow> fallback)"

subsection \<open>The seed transcript and the language switch\<close>

text \<open>
  The effect with dependencies \<open>[t, hasInteracted]\<close>: it returns at once after the first
  interaction, and sets the transcript to the three scripted messages before it.
\<close>

definition seedMessages :: "Copy \<Rightarrow> ChatMessage list" where
  "seedMessages t =
     [\<lparr>role = Agent, text_msg = chatAgent1 t\<rparr>,
      \<lparr>role = User, text_msg = chatUser t\<rparr>,
      \<lparr>role = Agent, text_msg = chatAgent2 t\<rparr>]"

definition seedEffect :: "state \<Rightarrow> state" where
  "seedEffect s =
     (if hasInteracted s then s
      else s\<lparr>messages := seedMessages (COPY (lang s))\<rparr>)"

text \<open>
  The language buttons: \<open>setLang\<close>, then the effects of the next render. Setting the
  language it already has leaves the component as it is: there is no render, and the
  dependency \<open>t\<close> of the seed effect has not changed.
\<close>

definition setLang :: "Lang \<Rightarrow> state \<Rightarrow> state" where
  "setLang l s = (if l = lang s then s else seedEffect (s\<lparr>lang := l\<rparr>))"

text \<open>The input field's \<open>onChange\<close>.\<close>

definition setInput :: "jsstring \<Rightarrow> state \<Rightarrow> state" where
  "setInput v s = s\<lparr>input := v\<rparr>"

subsection \<open>loadModels\<close>

record registry_payload =
  data :: "ModelOption list option"

text \<open>The part of \<open>loadModels\<close> before the \<open>await\<close>.\<close>

definition loadModels_begin :: "state \<Rightarrow> state" where
  "loadModels_begin s = s\<lparr>modelsLoading := True, modelsError := None\<rparr>"

definition loadModels_catch :: "bool \<Rightarrow> thrown \<Rightarrow> state \<Rightarrow> state" where
  "loadModels_catch isMounted err s =
     (if isMounted
      then s\<lparr>modelOptions := [],
             modelsError := Some (message_of err (lit ''Model list failed''))\<rparr>
      else s)"

definition loadModels_finally :: "bool \<Rightarrow> state \<Rightarrow> state" where
  "loadModels_finally isMounted s =
     (if isMounted then s\<lparr>modelsLoading := False\<rparr> else s)"

text \<open>
  The part of \<open>loadModels\<close> after the \<open>await\<close>, on the state of that moment.
  \<open>data\<close> is \<open>None\<close> when the body's \<open>data\<close> field is not an array.
\<close>

definition loadModels_resolve ::
  "bool \<Rightarrow> registry_payload fetch_outcome \<Rightarrow> state \<Rightarrow> state" where
  "loadModels_resolve isMounted outcome s =
     loadModels_finally isMounted
       (case outcome of
          Rejected err \<Rightarrow> loadModels_catch isMounted err s
        | Response st b \<Rightarrow>
            if \<not> ok st
            then loadModels_catch isMounted
                   (ErrorObj (lit ''Model list failed ('' @ decimal st @ lit '')'')) s
            else
              (case b of
                 Malformed m \<Rightarrow> loadModels_catch isMounted (ErrorObj m) s
               | Json d \<Rightarrow>
                   (case data d of
                      None \<Rightarrow> s
                    | Some opts \<Rightarrow>
                        if isMounted
                        then
                          (case opts of
                             [] \<Rightarrow> s\<lparr>modelOptions := opts\<rparr>
                           | m # rest \<Rightarrow> s\<lparr>modelOptions := opts, modelName := id_opt m\<rparr>)
                        else s)))"

text \<open>
  The same on any reply. On a body that is \<open>null\<close> the check of \<open>res.ok\<close> comes
  first; on a status in 200..299 \<open>data.data\<close> raises the TypeError inside the
  \<open>try\<close>, before any setter is called.
\<close>

definition loadModels_settle ::
  "bool \<Rightarrow> registry_payload reply \<Rightarrow> state \<Rightarrow> state" where
  "loadModels_settle isMounted r s =
     (case r of
        Outcome outcome \<Rightarrow> loadModels_resolve isMounted outcome s
      | NullResponse st m \<Rightarrow>
          loadModels_finally isMounted
            (if \<not> ok st
             then loadModels_catch isMounted
                    (ErrorObj (lit ''Model list failed ('' @ decimal st @ lit '')'')) s
             else loadModels_catch isMounted (ErrorObj m) s))"

text \<open>The mount: the seed effect, then the start of \<open>loadModels\<close>.\<close>

definition mounted_state :: state where
  "mounted_state = loadModels_begin (seedEffect initial_state)"

subsection \<open>handleSubmit\<close>

record request =
  prompt :: jsstring
  model_name :: jsstring

record agent_payload =
  detail :: "jsstring option"
  response :: "jsstring option"
  center :: "MapCenter option"
  places :: "Place list option"

text \<open>
  The part of \<open>handleSubmit\<close> before the \<open>await\<close>: the new state and the request that
  is sent, if any.
\<close>

definition handleSubmit_begin :: "state \<Rightarrow> state \<times> request option" where
  "handleSubmit_begin s =
     (let p = trim (input s) in
      if p = [] then (s, None)
      else
        (s\<lparr>hasInteracted := True, input := [], error := None, status := Thinking,
           messages := messages s @ [\<lparr>role = User, text_msg = p\<rparr>]\<rparr>,
         Some \<lparr>prompt = p, model_name = modelName s\<rparr>))"

definition handleSubmit_catch :: "thrown \<Rightarrow> state \<Rightarrow> state" where
  "handleSubmit_catch err s =
     s\<lparr>status := Error, error := Some (message_of err (lit ''Unknown error''))\<rparr>"

text \<open>\<open>payload?.detail\<close> where \<open>payload = await res.json().catch(() => ({}))\<close>.\<close>

definition payload_detail :: "agent_payload body \<Rightarrow> jsstring option" where
  "payload_detail b =
     (case b of Malformed m \<Rightarrow> None | Json d \<Rightarrow> detail d)"

text \<open>Lines 286 to 297: the updates made from a parsed body.\<close>

definition handleSubmit_apply :: "agent_payload \<Rightarrow> state \<Rightarrow> state" where
  "handleSubmit_apply d s =
     s\<lparr>messages :=
         messages s @ [\<lparr>role = Agent, text_msg = str_or (response d) (lit ''No response.'')\<rparr>],
       mapCenter :=
         (case center d of
            None \<Rightarrow> mapCenter s
          | Some c \<Rightarrow> if typeof (lat c) = TNumber then Some c else mapCenter s),
       mapPlaces := (case places d of None \<Rightarrow> mapPlaces s | Some ps \<Rightarrow> ps),
       status := Idle\<rparr>"

text \<open>The part of \<open>handleSubmit\<close> after the \<open>await\<close>, on the state of that moment.\<close>

definition handleSubmit_resolve :: "agent_payload fetch_outcome \<Rightarrow> state \<Rightarrow> state" where
  "handleSubmit_resolve outcome s =
     (case outcome of
        Rejected err \<Rightarrow> handleSubmit_catch err s
      | Response st b \<Rightarrow>
          if \<not> ok st
          then handleSubmit_catch
                 (ErrorObj (str_or (payload_detail b)
                              (lit ''Request failed ('' @ decimal st @ lit '')''))) s
          else
            (case b of
               Malformed m \<Rightarrow> handleSubmit_catch (ErrorObj m) s
             | Json d \<Rightarrow> handleSubmit_apply d s))"

text \<open>
  The same on any reply, with the render that follows: the result is the next state of the
  component, or \<open>None\<close> when that render throws and the component is torn down (no
  error boundary encloses it).

  On a body that is \<open>null\<close> and a status outside 200..299, \<open>payload?.detail\<close> is
  \<open>undefined\<close> and the error thrown carries the status message. On a status in
  200..299, line 287 hands \<open>setMessages\<close> an updater that reads \<open>data.response\<close>
  only when it is run; line 291 then raises the TypeError on \<open>data.center\<close>, the
  \<open>catch\<close> clause runs, and at the next render the updater, still in the queue, raises
  it again outside any \<open>try\<close>.
\<close>

definition handleSubmit_settle :: "agent_payload reply \<Rightarrow> state \<Rightarrow> state option" where
  "handleSubmit_settle r s =
     (case r of
        Outcome outcome \<Rightarrow> Some (handleSubmit_resolve outcome s)
      | NullResponse st m \<Rightarrow>
          if \<not> ok st
          then Some (handleSubmit_catch
                       (ErrorObj (lit ''Request failed ('' @ decimal st @ lit '')'')) s)
          else None)"

text \<open>
  A whole submission with nothing in between: the handler, the effects of the render it
  causes, and the continuation once \<open>fetch\<close> (the server, a parameter) has answered.
  The second component lists the requests sent.
\<close>

definition handleSubmit ::
  "(request \<Rightarrow> agent_payload fetch_outcome) \<Rightarrow> state \<Rightarrow> state \<times> request list" where
  "handleSubmit fetch s =
     (case handleSubmit_begin s of
        (s1, None) \<Rightarrow> (s1, [])
      | (s1, Some rq) \<Rightarrow> (handleSubmit_resolve (fetch rq) (seedEffect s1), [rq]))"

text \<open>
  The failed calls: \<open>fetch\<close> rejected (a network failure), a status outside 200..299,
  or a body that is not JSON.
\<close>

definition failed :: "agent_payload fetch_outcome \<Rightarrow> bool" where
  "failed outcome =
     (case outcome of
        Rejected err \<Rightarrow> True
      | Response st b \<Rightarrow>
          if \<not> ok st then True
          else (case b of Malformed m \<Rightarrow> True | Json d \<Rightarrow> False))"

section \<open>Notions of the specification\<close>

text \<open>
  "Present and numeric": the value is a number. A place is renderable when both of its
  coordinates are.
\<close>

definition is_number :: "jsval \<Rightarrow> bool" where
  "is_number v = (case v of JNum x \<Rightarrow> True | _ \<Rightarrow> False)"

definition renderable :: "Place \<Rightarrow> bool" where
  "renderable p = (is_number (lat p) \<and> is_number (lon p))"

text \<open>The two places of the specification's example.\<close>

definition placeA :: Place where
  "placeA = \<lparr>lat = JNum 41.05, lon = JNum 29.00, name = lit ''A'', address = None\<rparr>"

definition placeB :: Place where
  "placeB = \<lparr>lat = JNull, lon = JNull, name = lit ''B'', address = None\<rparr>"

text \<open>A prompt that is empty or consists of white space only.\<close>

definition whitespace_only :: "jsstring \<Rightarrow> bool" where
  "whitespace_only v = list_all is_js_space v"

text \<open>A server that answers every request with status 500 and a \<open>detail\<close>.\<close>

definition server_error :: "request \<Rightarrow> agent_payload fetch_outcome" where
  "server_error rq =
     Response 500 (Json \<lparr>detail = Some (lit ''boom''), response = None, center = None,
                         places = None\<rparr>)"

text \<open>
  The text of the agent message as the specification words it: the \<open>response\<close> field,
  or the literal when the field is absent.
\<close>

definition spec_agent_text :: "agent_payload \<Rightarrow> jsstring" where
  "spec_agent_text d = (case response d of None \<Rightarrow> lit ''No response.'' | Some t \<Rightarrow> t)"

text \<open>"The response's \<open>center\<close> has a numeric \<open>lat\<close>."\<close>

definition has_numeric_lat :: "MapCenter option \<Rightarrow> bool" where
  "has_numeric_lat c = (case c of None \<Rightarrow> False | Some m \<Rightarrow> is_number (lat m))"

text \<open>
  The stored error message as the specification words it: the \<open>detail\<close> field if
  present, else a message derived from the status code, else (no status code: the call
  itself failed) the generic unknown-error message.
\<close>

definition spec_failure_message :: "agent_payload fetch_outcome \<Rightarrow> jsstring" where
  "spec_failure_message out =
     (case out of
        Rejected err \<Rightarrow> lit ''Unknown error''
      | Response st b \<Rightarrow>
          (case payload_detail b of
             Some t \<Rightarrow> t
           | None \<Rightarrow> lit ''Request failed ('' @ decimal st @ lit '')''))"

text \<open>Bodies and outcomes used as examples.\<close>

definition empty_reply :: agent_payload where
  "empty_reply = \<lparr>detail = None, response = Some [], center = None, places = None\<rparr>"

definition found_reply :: agent_payload where
  "found_reply =
     \<lparr>detail = None, response = Some (lit ''Found 2 places.''),
      center = Some \<lparr>lat = JNum 41.05, lon = JNum 29.00, label = None\<rparr>,
      places = Some [placeA, placeB]\<rparr>"

definition network_failure :: "agent_payload fetch_outcome" where
  "network_failure = Rejected (ErrorObj (lit ''Failed to fetch''))"

definition agent_found :: "request \<Rightarrow> agent_payload fetch_outcome" where
  "agent_found rq = Response 200 (Json found_reply)"

definition malformed_ok :: "agent_payload fetch_outcome" where
  "malformed_ok = Response 200 (Malformed (lit ''Unexpected end of JSON input''))"

text \<open>The state after the first submission, of the prompt "cafes ", from the mounted page.\<close>

definition first_submitted :: state where
  "first_submitted =
     seedEffect (fst (handleSubmit_begin (setInput (lit ''cafes '') mounted_state)))"

text \<open>
  Continuations run one at a time, each on the state the previous one left, in the order
  in which their calls complete.
\<close>

definition apply_completions :: "agent_payload fetch_outcome list \<Rightarrow> state \<Rightarrow> state" where
  "apply_completions outs s = fold handleSubmit_resolve outs s"

text \<open>Two calls in flight and their answers.\<close>

definition placeC :: Place where
  "placeC = \<lparr>lat = JNum 41.01, lon = JNum 28.98, name = lit ''C'', address = None\<rparr>"

definition reply_one :: agent_payload where
  "reply_one =
     \<lparr>detail = None, response = Some (lit ''one''),
      center = Some \<lparr>lat = JNum 41.05, lon = JNum 29.00, label = None\<rparr>,
      places = Some [placeA]\<rparr>"

definition reply_two :: agent_payload where
  "reply_two =
     \<lparr>detail = None, response = Some (lit ''two''),
      center = Some \<lparr>lat = JNum 41.01, lon = JNum 28.98, label = None\<rparr>,
      places = Some [placeC]\<rparr>"

definition both_submitted :: state where
  "both_submitted =
     fst (handleSubmit_begin (setInput (lit ''b'')
       (fst (handleSubmit_begin (setInput (lit ''a'') mounted_state)))))"

definition raced :: state where
  "raced =
     apply_completions [Response 200 (Json reply_two), Response 200 (Json reply_one)]
       both_submitted"

text \<open>A registry fetch that fails: a network error or a status outside 200..299.\<close>

definition registry_failed :: "registry_payload fetch_outcome \<Rightarrow> bool" where
  "registry_failed out = (case out of Rejected err \<Rightarrow> True | Response st b \<Rightarrow> \<not> ok st)"

text \<open>A state that still holds a model list, with a prompt typed in.\<close>

definition listed_state :: state where
  "listed_state =
     setInput (lit ''cafes '')
       (mounted_state\<lparr>modelOptions := [\<lparr>id_opt = lit ''m/1'', name_opt = lit ''M1''\<rparr>]\<rparr>)"

definition registry_down :: "registry_payload fetch_outcome" where
  "registry_down = Response 503 (Malformed (lit ''Unexpected token''))"

text \<open>
  The view center as the specification words it: the supplied center when both of its
  coordinates are present and numeric, the fallback center otherwise.
\<close>

definition spec_viewCenter :: "MapCenter option \<Rightarrow> jsval \<times> jsval" where
  "spec_viewCenter c =
     (case c of
        None \<Rightarrow> DEFAULT_CENTER
      | Some m \<Rightarrow>
          if is_number (lat m) \<and> is_number (lon m) then (lat m, lon m) else DEFAULT_CENTER)"

text \<open>A center on the equator, and one whose \<open>lon\<close> is null.\<close>

definition equator_center :: MapCenter where
  "equator_center = \<lparr>lat = JNum 0, lon = JNum 29, label = None\<rparr>"

definition partial_center :: MapCenter where
  "partial_center = \<lparr>lat = JNum 41.05, lon = JNull, label = None\<rparr>"

section \<open>Basic facts\<close>

lemma typeof_number: "(typeof v = TNumber) = is_number v"
  by (cases v) (simp_all add: typeof_def is_number_def)

lemma renderMarkers_empty: "markers pl = [] \<Longrightarrow> renderMarkers pl = [defaultMarker]"
  by (simp add: renderMarkers_def)

lemma renderMarkers_nonempty: "renderMarkers pl \<noteq> []"
  by (simp add: renderMarkers_def)

lemma apply_places: "places d = Some ps \<Longrightarrow> mapPlaces (handleSubmit_apply d s) = ps"
  by (simp add: handleSubmit_apply_def)

lemma dropWhile_all: "list_all P xs \<Longrightarrow> dropWhile P xs = []"
  by (induction xs) simp_all

lemma trim_whitespace_only: "whitespace_only v \<Longrightarrow> trim v = []"
  by (simp add: trim_def whitespace_only_def dropWhile_all)

lemma begin_empty: "trim (input s) = [] \<Longrightarrow> handleSubmit_begin s = (s, None)"
  by (simp add: handleSubmit_begin_def)

lemma begin_nonempty:
  "trim (input s) \<noteq> [] \<Longrightarrow>
   handleSubmit_begin s =
     (s\<lparr>hasInteracted := True, input := [], error := None, status := Thinking,
        messages := messages s @ [\<lparr>role = User, text_msg = trim (input s)\<rparr>]\<rparr>,
      Some \<lparr>prompt = trim (input s), model_name = modelName s\<rparr>)"
  by (simp add: handleSubmit_begin_def Let_def)

lemma seedEffect_interacted: "hasInteracted s \<Longrightarrow> seedEffect s = s"
  by (simp add: seedEffect_def)

lemma handleSubmit_nonempty:
  "trim (input s) \<noteq> [] \<Longrightarrow>
   handleSubmit fetch s =
     (handleSubmit_resolve (fetch \<lparr>prompt = trim (input s), model_name = modelName s\<rparr>)
        (fst (handleSubmit_begin s)),
      [\<lparr>prompt = trim (input s), model_name = modelName s\<rparr>])"
  by (simp add: handleSubmit_def begin_nonempty seedEffect_interacted)

lemma catch_update:
  "handleSubmit_catch err s =
     s\<lparr>status := Error, error := Some (message_of err (lit ''Unknown error''))\<rparr>"
  by (simp add: handleSubmit_catch_def)

lemma resolve_failed:
  assumes "failed out"
  shows "handleSubmit_resolve out s =
           s\<lparr>status := Error, error := error (handleSubmit_resolve out s)\<rparr>
         \<and> error (handleSubmit_resolve out s) \<noteq> None"
proof (cases out)
  case (Rejected err)
  then show ?thesis
    by (simp add: handleSubmit_resolve_def catch_update)
next
  case (Response st b)
  show ?thesis
  proof (cases "ok st")
    case False
    with Response show ?thesis
      by (simp add: handleSubmit_resolve_def catch_update)
  next
    case True
    with Response assms show ?thesis
      by (cases b) (simp_all add: handleSubmit_resolve_def catch_update failed_def)
  qed
qed

lemma resolve_ok:
  "ok st \<Longrightarrow> handleSubmit_resolve (Response st (Json d)) s = handleSubmit_apply d s"
  by (simp add: handleSubmit_resolve_def)

lemma trim_empty_iff: "(trim v = []) = whitespace_only v"
proof
  assume t: "trim v = []"
  show "whitespace_only v"
  proof (cases "dropWhile is_js_space v")
    case Nil
    then show ?thesis
      by (simp add: whitespace_only_def dropWhile_eq_Nil_conv list_all_iff)
  next
    case (Cons x xs)
    then have "\<not> is_js_space x"
      using hd_dropWhile [of is_js_space v] by simp
    moreover have "\<forall>y\<in>set (dropWhile is_js_space v). is_js_space y"
      using t by (simp add: trim_def dropWhile_eq_Nil_conv)
    ultimately show ?thesis
      using Cons by simp
  qed
next
  assume "whitespace_only v"
  then show "trim v = []"
    by (rule trim_whitespace_only)
qed

lemma apply_messages:
  "messages (handleSubmit_apply d s) =
     messages s @ [\<lparr>role = Agent, text_msg = str_or (response d) (lit ''No response.'')\<rparr>]"
  by (simp add: handleSubmit_apply_def)

lemma apply_mapCenter:
  "mapCenter (handleSubmit_apply d s) =
     (if has_numeric_lat (center d) then center d else mapCenter s)"
  by (simp add: handleSubmit_apply_def has_numeric_lat_def typeof_number split: option.splits)

lemma apply_mapPlaces:
  "mapPlaces (handleSubmit_apply d s) = (case places d of None \<Rightarrow> mapPlaces s | Some ps \<Rightarrow> ps)"
  by (simp add: handleSubmit_apply_def)

lemma apply_status: "status (handleSubmit_apply d s) = Idle"
  by (simp add: handleSubmit_apply_def)

lemma str_or_cases:
  "str_or x d = (case x of None \<Rightarrow> d | Some t \<Rightarrow> if t = [] then d else t)"
  by (simp add: str_or_def split: option.splits)

lemma ok_200: "ok 200"
  by (simp add: ok_def)

lemma not_ok_500: "\<not> ok 500"
  by (simp add: ok_def)

lemma lit_nonempty: "cs \<noteq> [] \<Longrightarrow> lit cs \<noteq> []"
  by (simp add: lit_def)

lemma begin_messages:
  "trim (input s) \<noteq> [] \<Longrightarrow>
   messages (fst (handleSubmit_begin s)) =
     messages s @ [\<lparr>role = User, text_msg = trim (input s)\<rparr>]"
  by (simp add: begin_nonempty)

lemma catch_fields:
  "status (handleSubmit_catch err s) = Error"
  "error (handleSubmit_catch err s) = Some (message_of err (lit ''Unknown error''))"
  "messages (handleSubmit_catch err s) = messages s"
  "mapCenter (handleSubmit_catch err s) = mapCenter s"
  "mapPlaces (handleSubmit_catch err s) = mapPlaces s"
  by (simp_all add: handleSubmit_catch_def)

lemma resolve_rejected:
  "handleSubmit_resolve (Rejected err) s = handleSubmit_catch err s"
  by (simp add: handleSubmit_resolve_def)

lemma resolve_not_ok:
  "\<not> ok st \<Longrightarrow>
   handleSubmit_resolve (Response st b) s =
     handleSubmit_catch
       (ErrorObj (str_or (payload_detail b) (lit ''Request failed ('' @ decimal st @ lit '')''))) s"
  by (simp add: handleSubmit_resolve_def)

lemma resolve_malformed:
  "ok st \<Longrightarrow> handleSubmit_resolve (Response st (Malformed m)) s = handleSubmit_catch (ErrorObj m) s"
  by (simp add: handleSubmit_resolve_def)

lemma resolve_failed_frame:
  assumes "failed out"
  shows "status (handleSubmit_resolve out s) = Error"
    and "messages (handleSubmit_resolve out s) = messages s"
    and "mapCenter (handleSubmit_resolve out s) = mapCenter s"
    and "mapPlaces (handleSubmit_resolve out s) = mapPlaces s"
proof -
  let ?r = "handleSubmit_resolve out s"
  have m: "?r = s\<lparr>status := Error, error := error ?r\<rparr>"
    using resolve_failed [OF assms, of s] by simp
  show "status ?r = Error" by (subst m) simp
  show "messages ?r = messages s" by (subst m) simp
  show "mapCenter ?r = mapCenter s" by (subst m) simp
  show "mapPlaces ?r = mapPlaces s" by (subst m) simp
qed

lemma mounted_fields:
  "messages mounted_state = seedMessages (COPY En)"
  "hasInteracted mounted_state = False"
  "mapCenter mounted_state = None"
  "mapPlaces mounted_state = []"
  "modelName mounted_state = lit ''openai/gpt-4o-mini''"
  "lang mounted_state = En"
  by (simp_all add: mounted_state_def loadModels_begin_def seedEffect_def initial_state_def)

lemma trim_cafes: "trim (input (setInput (lit ''cafes '') s)) = lit ''cafes''"
  by (simp add: setInput_def trim_def lit_def is_js_space_def)

lemma lit_cafes_nonempty: "lit ''cafes'' \<noteq> []"
  by (simp add: lit_def)

lemma setInput_fields:
  "messages (setInput v s) = messages s"
  "hasInteracted (setInput v s) = hasInteracted s"
  "modelName (setInput v s) = modelName s"
  "mapCenter (setInput v s) = mapCenter s"
  "mapPlaces (setInput v s) = mapPlaces s"
  by (simp_all add: setInput_def)

lemma first_submitted_fields:
  "messages first_submitted =
     seedMessages (COPY En) @ [\<lparr>role = User, text_msg = lit ''cafes''\<rparr>]"
  "hasInteracted first_submitted"
proof -
  have n: "trim (input (setInput (lit ''cafes '') mounted_state)) \<noteq> []"
    by (simp add: trim_cafes lit_cafes_nonempty)
  show "messages first_submitted =
     seedMessages (COPY En) @ [\<lparr>role = User, text_msg = lit ''cafes''\<rparr>]"
    unfolding first_submitted_def
    by (simp add: begin_nonempty [OF n] seedEffect_interacted trim_cafes setInput_fields
        mounted_fields)
  show "hasInteracted first_submitted"
    unfolding first_submitted_def by (simp add: begin_nonempty [OF n] seedEffect_interacted)
qed

lemma seed_languages_differ: "seedMessages (COPY Tr) \<noteq> seedMessages (COPY En)"
  by (simp add: seedMessages_def COPY_def lit_def)

lemma completions_two:
  "apply_completions [a, b] s = handleSubmit_resolve b (handleSubmit_resolve a s)"
  by (simp add: apply_completions_def)

lemma trim_letter:
  "trim (input (setInput (lit ''a'') s)) = lit ''a''"
  "trim (input (setInput (lit ''b'') s)) = lit ''b''"
  by (simp_all add: setInput_def trim_def lit_def is_js_space_def)

lemma both_submitted_messages:
  "messages both_submitted =
     seedMessages (COPY En) @
     [\<lparr>role = User, text_msg = lit ''a''\<rparr>, \<lparr>role = User, text_msg = lit ''b''\<rparr>]"
proof -
  have a: "lit ''a'' \<noteq> []" "lit ''b'' \<noteq> []"
    by (simp_all add: lit_def)
  show ?thesis
    unfolding both_submitted_def
    by (simp add: begin_nonempty trim_letter a setInput_fields mounted_fields)
qed

lemma loadModels_rejected:
  "loadModels_resolve True (Rejected err) s =
     s\<lparr>modelOptions := [], modelsError := Some (message_of err (lit ''Model list failed'')),
       modelsLoading := False\<rparr>"
  by (simp add: loadModels_resolve_def loadModels_catch_def loadModels_finally_def)

lemma loadModels_not_ok:
  "\<not> ok st \<Longrightarrow>
   loadModels_resolve True (Response st b) s =
     s\<lparr>modelOptions := [],
       modelsError := Some (lit ''Model list failed ('' @ decimal st @ lit '')''),
       modelsLoading := False\<rparr>"
  by (simp add: loadModels_resolve_def loadModels_catch_def loadModels_finally_def
      message_of_def)

lemma loadModels_failed_state:
  assumes "registry_failed out"
  shows "loadModels_resolve True out s =
           s\<lparr>modelOptions := [], modelsError := modelsError (loadModels_resolve True out s),
             modelsLoading := False\<rparr>
         \<and> modelsError (loadModels_resolve True out s) \<noteq> None"
proof (cases out)
  case (Rejected err)
  then show ?thesis
    by (simp add: loadModels_rejected)
next
  case (Response st b)
  with assms have "\<not> ok st"
    by (simp add: registry_failed_def)
  with Response show ?thesis
    by (simp add: loadModels_not_ok)
qed

lemma loadModels_failed_modelName:
  "registry_failed out \<Longrightarrow> modelName (loadModels_resolve True out s) = modelName s"
  by (cases out) (simp_all add: registry_failed_def loadModels_rejected loadModels_not_ok)

lemma loadModels_unmounted:
  "registry_failed out \<Longrightarrow> loadModels_resolve False out s = s"
  by (cases out)
    (simp_all add: registry_failed_def loadModels_resolve_def loadModels_catch_def
      loadModels_finally_def)

lemma settle_outcome:
  "handleSubmit_settle (Outcome out) s = Some (handleSubmit_resolve out s)"
  by (simp add: handleSubmit_settle_def)

lemma settle_null_not_ok:
  "\<not> ok st \<Longrightarrow>
   handleSubmit_settle (NullResponse st m) s =
     Some (s\<lparr>status := Error,
              error := Some (lit ''Request failed ('' @ decimal st @ lit '')'')\<rparr>)"
  by (simp add: handleSubmit_settle_def handleSubmit_catch_def message_of_def)

lemma settle_null_ok: "ok st \<Longrightarrow> handleSubmit_settle (NullResponse st m) s = None"
  by (simp add: handleSubmit_settle_def)

lemma loadModels_settle_null:
  "loadModels_settle True (NullResponse st m) s =
     s\<lparr>modelOptions := [],
       modelsError :=
         Some (if ok st then m else lit ''Model list failed ('' @ decimal st @ lit '')''),
       modelsLoading := False\<rparr>"
  by (simp add: loadModels_settle_def loadModels_catch_def loadModels_finally_def
      message_of_def)

section \<open>The marker list\<close>

text \<open>
  C3. For every list of places, the marker list is the list of exactly those places whose
  \<open>lat\<close> and \<open>lon\<close> are both present and numeric, in their order; without a list
  there is no marker. For the places A (41.05, 29.00) and B (null, null) the marker list
  is A alone.
\<close>

theorem markers_renderable:
  "markers (Some ps) = filter renderable ps
   \<and> markers None = []
   \<and> markers (Some [placeA, placeB]) = [placeA]
   \<and> map name (markers (Some [placeA, placeB])) = [lit ''A'']"
proof -
  have a: "renderable placeA"
    by (simp add: renderable_def is_number_def placeA_def)
  have b: "\<not> renderable placeB"
    by (simp add: renderable_def is_number_def placeB_def)
  have f: "markers (Some qs) = filter renderable qs" for qs
    by (simp add: markers_def typeof_number renderable_def [abs_def])
  have n: "name placeA = lit ''A''"
    by (simp add: placeA_def)
  show ?thesis
    using a b n by (simp add: f) (simp add: markers_def)
qed

text \<open>
  C7. Whenever the marker list is empty, the mounted map shows exactly one marker, the
  default one, which stands at the fallback center and carries the fixed label; a
  rendered map never has zero markers; and after a response with \<open>places = []\<close> the map
  shows exactly the default marker.
\<close>

theorem default_marker_when_empty:
  "(markers pl = [] \<longrightarrow>
      MapView True c pl = MapContainer (containerCenter c) 12 [defaultMarker])
   \<and> position defaultMarker = DEFAULT_CENTER
   \<and> popup_title defaultMarker = [304] @ lit ''stanbul merkez''
   \<and> (\<forall>ctr z ms. MapView mounted c pl = MapContainer ctr z ms \<longrightarrow> length ms \<ge> 1)
   \<and> (places d = Some [] \<longrightarrow>
        MapView True (mapCenter (handleSubmit_apply d s))
          (Some (mapPlaces (handleSubmit_apply d s)))
        = MapContainer (containerCenter (mapCenter (handleSubmit_apply d s))) 12
            [defaultMarker])"
proof -
  have 1: "markers pl = [] \<longrightarrow>
      MapView True c pl = MapContainer (containerCenter c) 12 [defaultMarker]"
    by (simp add: MapView_def renderMarkers_empty)
  have 2: "position defaultMarker = DEFAULT_CENTER"
    by (simp add: defaultMarker_def DEFAULT_CENTER_def)
  have 3: "popup_title defaultMarker = [304] @ lit ''stanbul merkez''"
    by (simp add: defaultMarker_def)
  have 4: "\<forall>ctr z ms. MapView mounted c pl = MapContainer ctr z ms \<longrightarrow> length ms \<ge> 1"
    using renderMarkers_nonempty [of pl]
    by (auto simp: MapView_def Suc_le_eq split: if_splits)
  have e: "markers (Some []) = []"
    by (simp add: markers_def)
  have 5: "places d = Some [] \<longrightarrow>
        MapView True (mapCenter (handleSubmit_apply d s))
          (Some (mapPlaces (handleSubmit_apply d s)))
        = MapContainer (containerCenter (mapCenter (handleSubmit_apply d s))) 12
            [defaultMarker]"
    by (simp add: apply_places MapView_def renderMarkers_empty e)
  from 1 2 3 4 5 show ?thesis by blast
qed

theorem default_marker_when_empty_witness:
  "markers (Some [placeB]) = []
   \<and> MapView True None (Some [placeB]) = MapContainer DEFAULT_CENTER 12 [defaultMarker]
   \<and> length [defaultMarker] \<ge> 1
   \<and> MapView True None (Some (mapPlaces (handleSubmit_apply
        \<lparr>detail = None, response = None, center = None, places = Some []\<rparr> initial_state)))
      = MapContainer DEFAULT_CENTER 12 [defaultMarker]"
proof -
  have h: "markers (Some [placeB]) = []"
    by (simp add: markers_def placeB_def typeof_def)
  have c: "containerCenter None = DEFAULT_CENTER"
    by (simp add: containerCenter_def DEFAULT_CENTER_def opt_lat_def opt_lon_def
        js_or_def truthy_def)
  have m: "mapCenter (handleSubmit_apply
        \<lparr>detail = None, response = None, center = None, places = Some []\<rparr> initial_state)
      = None"
    by (simp add: handleSubmit_apply_def initial_state_def)
  show ?thesis
    using default_marker_when_empty [of "Some [placeB]" None True
        "\<lparr>detail = None, response = None, center = None, places = Some []\<rparr>"
        initial_state]
      h c m
    by simp
qed

section \<open>Submitting a prompt\<close>

text \<open>
  C5. A prompt that is empty or white space only (equivalently, one that trims to the
  empty string) makes the submission a no-op: the state is returned as it was, so no
  message, status, error or map field changes, and no request is sent.
\<close>

theorem whitespace_prompt_noop:
  "(whitespace_only (input s) \<or> trim (input s) = [] \<longrightarrow>
      handleSubmit_begin s = (s, None) \<and> handleSubmit fetch s = (s, []))
   \<and> (whitespace_only (input s) \<longleftrightarrow> trim (input s) = [])"
  by (auto simp: trim_empty_iff begin_empty handleSubmit_def)

theorem whitespace_prompt_noop_witness:
  "whitespace_only (input (setInput [32, 9, 160, 8195, 10] mounted_state))
   \<and> trim (input (setInput [32, 9, 160, 8195, 10] mounted_state)) = []
   \<and> handleSubmit_begin (setInput [32, 9, 160, 8195, 10] mounted_state)
     = (setInput [32, 9, 160, 8195, 10] mounted_state, None)
   \<and> handleSubmit (\<lambda>rq. Rejected NonError) (setInput [32, 9, 160, 8195, 10] mounted_state)
     = (setInput [32, 9, 160, 8195, 10] mounted_state, [])"
proof -
  have h: "whitespace_only (input (setInput [32, 9, 160, 8195, 10] mounted_state))"
    by (simp add: setInput_def whitespace_only_def is_js_space_def)
  show ?thesis
    using h whitespace_prompt_noop
      [of "setInput [32, 9, 160, 8195, 10] mounted_state" "\<lambda>rq. Rejected NonError"]
    by simp
qed

text \<open>
  C10. For a prompt that is not empty once trimmed, the input field is cleared before the
  request is sent; when the call fails (\<open>fetch\<close> rejected, a status outside 200..299,
  or a body that is not JSON) the component renders on, and its state differs from the
  one before the failure in \<open>status\<close> and \<open>error\<close> only, so the input stays
  empty, the transcript is the earlier one plus the user's message, and the map center
  and places are untouched. The same holds when the failed response, with a status
  outside 200..299, has the body \<open>null\<close>.
\<close>

theorem failed_submit_loses_prompt:
  assumes "trim (input s) \<noteq> []"
    and "failed (fetch \<lparr>prompt = trim (input s), model_name = modelName s\<rparr>)"
  shows "snd (handleSubmit_begin s) = Some \<lparr>prompt = trim (input s), model_name = modelName s\<rparr>
      \<and> input (fst (handleSubmit_begin s)) = []
      \<and> snd (handleSubmit fetch s) = [\<lparr>prompt = trim (input s), model_name = modelName s\<rparr>]
      \<and> fst (handleSubmit fetch s) =
          (fst (handleSubmit_begin s))
            \<lparr>status := Error, error := error (fst (handleSubmit fetch s))\<rparr>
      \<and> error (fst (handleSubmit fetch s)) \<noteq> None
      \<and> input (fst (handleSubmit fetch s)) = []
      \<and> messages (fst (handleSubmit fetch s)) =
          messages s @ [\<lparr>role = User, text_msg = trim (input s)\<rparr>]
      \<and> mapCenter (fst (handleSubmit fetch s)) = mapCenter s
      \<and> mapPlaces (fst (handleSubmit fetch s)) = mapPlaces s
      \<and> handleSubmit_settle
            (Outcome (fetch \<lparr>prompt = trim (input s), model_name = modelName s\<rparr>))
            (fst (handleSubmit_begin s)) = Some (fst (handleSubmit fetch s))
      \<and> (\<not> ok st \<longrightarrow>
            handleSubmit_settle (NullResponse st m') (fst (handleSubmit_begin s)) =
              Some ((fst (handleSubmit_begin s))
                      \<lparr>status := Error,
                        error := Some (lit ''Request failed ('' @ decimal st @ lit '')'')\<rparr>))"
proof -
  let ?rq = "\<lparr>prompt = trim (input s), model_name = modelName s\<rparr>"
  let ?s1 = "fst (handleSubmit_begin s)"
  have b: "handleSubmit_begin s = (?s1, Some ?rq)"
    using assms(1) by (simp add: begin_nonempty)
  have s1: "?s1 = s\<lparr>hasInteracted := True, input := [], error := None, status := Thinking,
        messages := messages s @ [\<lparr>role = User, text_msg = trim (input s)\<rparr>]\<rparr>"
    using assms(1) by (simp add: begin_nonempty)
  let ?e = "error (handleSubmit_resolve (fetch ?rq) ?s1)"
  have m: "handleSubmit_resolve (fetch ?rq) ?s1 = ?s1\<lparr>status := Error, error := ?e\<rparr>"
    and e: "?e \<noteq> None"
    using resolve_failed [OF assms(2), of ?s1] by simp_all
  have h: "handleSubmit fetch s = (handleSubmit_resolve (fetch ?rq) ?s1, [?rq])"
    using assms(1) by (simp add: handleSubmit_nonempty)
  have f: "input ?s1 = []"
    "messages ?s1 = messages s @ [\<lparr>role = User, text_msg = trim (input s)\<rparr>]"
    "mapCenter ?s1 = mapCenter s" "mapPlaces ?s1 = mapPlaces s"
    by (simp_all add: s1)
  have sb: "snd (handleSubmit_begin s) = Some ?rq"
    using b by (metis snd_conv)
  have r: "input (handleSubmit_resolve (fetch ?rq) ?s1) = input ?s1"
    "messages (handleSubmit_resolve (fetch ?rq) ?s1) = messages ?s1"
    "mapCenter (handleSubmit_resolve (fetch ?rq) ?s1) = mapCenter ?s1"
    "mapPlaces (handleSubmit_resolve (fetch ?rq) ?s1) = mapPlaces ?s1"
    by (subst m, simp)+
  have o: "handleSubmit_settle (Outcome (fetch ?rq)) ?s1
           = Some (handleSubmit_resolve (fetch ?rq) ?s1)"
    by (rule settle_outcome)
  have z: "\<not> ok st \<longrightarrow>
            handleSubmit_settle (NullResponse st m') ?s1 =
              Some (?s1\<lparr>status := Error,
                        error := Some (lit ''Request failed ('' @ decimal st @ lit '')'')\<rparr>)"
    by (simp add: settle_null_not_ok)
  show ?thesis
    unfolding h sb o using f r m e z by simp
qed

theorem failed_submit_loses_prompt_witness:
  "trim (input (setInput (lit ''cafes '') mounted_state)) \<noteq> []
   \<and> failed (server_error \<lparr>prompt = trim (input (setInput (lit ''cafes '') mounted_state)),
                           model_name = modelName (setInput (lit ''cafes '') mounted_state)\<rparr>)
   \<and> input (fst (handleSubmit server_error (setInput (lit ''cafes '') mounted_state))) = []
   \<and> messages (fst (handleSubmit server_error (setInput (lit ''cafes '') mounted_state))) =
       seedMessages (COPY En) @ [\<lparr>role = User, text_msg = lit ''cafes''\<rparr>]
   \<and> mapCenter (fst (handleSubmit server_error (setInput (lit ''cafes '') mounted_state))) = None
   \<and> mapPlaces (fst (handleSubmit server_error (setInput (lit ''cafes '') mounted_state))) = []
   \<and> \<not> ok 500
   \<and> handleSubmit_settle (NullResponse 500 [])
         (fst (handleSubmit_begin (setInput (lit ''cafes '') mounted_state))) =
       Some ((fst (handleSubmit_begin (setInput (lit ''cafes '') mounted_state)))
               \<lparr>status := Error, error := Some (lit ''Request failed (500)'')\<rparr>)"
proof -
  let ?s = "setInput (lit ''cafes '') mounted_state"
  have t: "trim (input ?s) = lit ''cafes''"
    by (simp add: setInput_def trim_def lit_def is_js_space_def)
  have n: "trim (input ?s) \<noteq> []"
    by (simp add: t) (simp add: lit_def)
  have f: "failed (server_error \<lparr>prompt = trim (input ?s), model_name = modelName ?s\<rparr>)"
    by (simp add: failed_def server_error_def ok_def)
  have m: "messages ?s = seedMessages (COPY En)" "mapCenter ?s = None" "mapPlaces ?s = []"
    by (simp_all add: setInput_def mounted_state_def loadModels_begin_def seedEffect_def
        initial_state_def)
  have r: "lit ''Request failed ('' @ decimal 500 @ lit '')'' = lit ''Request failed (500)''"
    by (simp add: lit_def decimal.simps)
  show ?thesis
    using n f not_ok_500 failed_submit_loses_prompt [of ?s server_error 500 "[]"]
    by (simp add: m t r)
qed

text \<open>
  C1, as the code has it. For every successful agent response (a status from 200 to 299
  and a parsed body) the continuation appends exactly one agent message, whose text is
  the \<open>response\<close> field, or the literal "No response." when the field is absent or
  the empty string; the map center becomes the response's \<open>center\<close> if that has a
  numeric \<open>lat\<close> and is kept otherwise; the place list becomes the response's
  \<open>places\<close> if that is an array (the empty array included) and is kept otherwise; and
  the status becomes idle. A whole submission therefore adds the user's message and
  that one agent message.
\<close>

theorem successful_response_applied:
  assumes "ok st"
  shows "messages (handleSubmit_resolve (Response st (Json d)) s) =
           messages s @
           [\<lparr>role = Agent,
             text_msg = (case response d of
                           None \<Rightarrow> lit ''No response.''
                         | Some t \<Rightarrow> if t = [] then lit ''No response.'' else t)\<rparr>]
     \<and> mapCenter (handleSubmit_resolve (Response st (Json d)) s) =
           (if has_numeric_lat (center d) then center d else mapCenter s)
     \<and> mapPlaces (handleSubmit_resolve (Response st (Json d)) s) =
           (case places d of None \<Rightarrow> mapPlaces s | Some ps \<Rightarrow> ps)
     \<and> status (handleSubmit_resolve (Response st (Json d)) s) = Idle
     \<and> (trim (input s) \<noteq> []
          \<and> fetch \<lparr>prompt = trim (input s), model_name = modelName s\<rparr> = Response st (Json d)
        \<longrightarrow> messages (fst (handleSubmit fetch s)) =
              messages s @
              [\<lparr>role = User, text_msg = trim (input s)\<rparr>,
               \<lparr>role = Agent, text_msg = str_or (response d) (lit ''No response.'')\<rparr>])"
proof -
  have r: "handleSubmit_resolve (Response st (Json d)) t = handleSubmit_apply d t" for t
    using assms by (rule resolve_ok)
  have 1: "messages (handleSubmit_apply d s) =
           messages s @
           [\<lparr>role = Agent,
             text_msg = (case response d of
                           None \<Rightarrow> lit ''No response.''
                         | Some t \<Rightarrow> if t = [] then lit ''No response.'' else t)\<rparr>]"
    by (simp add: apply_messages str_or_cases)
  have 5: "trim (input s) \<noteq> []
          \<and> fetch \<lparr>prompt = trim (input s), model_name = modelName s\<rparr> = Response st (Json d)
        \<longrightarrow> messages (fst (handleSubmit fetch s)) =
              messages s @
              [\<lparr>role = User, text_msg = trim (input s)\<rparr>,
               \<lparr>role = Agent, text_msg = str_or (response d) (lit ''No response.'')\<rparr>]"
    by (simp add: handleSubmit_nonempty r apply_messages begin_messages)
  show ?thesis
    unfolding r using 1 5 by (simp add: apply_mapCenter apply_mapPlaces apply_status)
qed

theorem successful_response_applied_witness:
  "ok 200
   \<and> trim (input (setInput (lit ''cafes '') mounted_state)) \<noteq> []
   \<and> agent_found \<lparr>prompt = trim (input (setInput (lit ''cafes '') mounted_state)),
                     model_name = modelName (setInput (lit ''cafes '') mounted_state)\<rparr>
       = Response 200 (Json found_reply)
   \<and> messages (handleSubmit_resolve (Response 200 (Json found_reply))
         (setInput (lit ''cafes '') mounted_state)) =
       seedMessages (COPY En) @ [\<lparr>role = Agent, text_msg = lit ''Found 2 places.''\<rparr>]
   \<and> mapCenter (handleSubmit_resolve (Response 200 (Json found_reply))
         (setInput (lit ''cafes '') mounted_state)) =
       Some \<lparr>lat = JNum 41.05, lon = JNum 29.00, label = None\<rparr>
   \<and> mapPlaces (handleSubmit_resolve (Response 200 (Json found_reply))
         (setInput (lit ''cafes '') mounted_state)) =
       [placeA, placeB]
   \<and> status (handleSubmit_resolve (Response 200 (Json found_reply))
         (setInput (lit ''cafes '') mounted_state)) = Idle
   \<and> messages (fst (handleSubmit agent_found (setInput (lit ''cafes '') mounted_state))) =
       seedMessages (COPY En) @
       [\<lparr>role = User, text_msg = lit ''cafes''\<rparr>,
        \<lparr>role = Agent, text_msg = lit ''Found 2 places.''\<rparr>]"
proof -
  let ?s = "setInput (lit ''cafes '') mounted_state"
  have t: "trim (input ?s) = lit ''cafes''"
    by (simp add: setInput_def trim_def lit_def is_js_space_def)
  have n: "lit ''cafes'' \<noteq> []" "lit ''Found 2 places.'' \<noteq> []"
    by (simp_all add: lit_def)
  have c: "has_numeric_lat (center found_reply)"
    by (simp add: has_numeric_lat_def found_reply_def is_number_def)
  have f: "response found_reply = Some (lit ''Found 2 places.'')"
    "places found_reply = Some [placeA, placeB]"
    "center found_reply = Some \<lparr>lat = JNum 41.05, lon = JNum 29.00, label = None\<rparr>"
    by (simp_all add: found_reply_def)
  have i: "messages ?s = seedMessages (COPY En)"
    by (simp add: setInput_def mounted_state_def loadModels_begin_def seedEffect_def
        initial_state_def)
  have a: "agent_found rq = Response 200 (Json found_reply)" for rq
    by (simp add: agent_found_def)
  show ?thesis
    using successful_response_applied [OF ok_200, of found_reply ?s agent_found] n c
    by (simp add: f i t a ok_200 str_or_def)
qed

text \<open>
  C1 as stated fails where the \<open>response\<close> field is present and empty: the field is
  the empty string, the appended text is "No response.".
\<close>

theorem empty_response_counterexample:
  "ok 200
   \<and> response empty_reply = Some []
   \<and> spec_agent_text empty_reply = []
   \<and> map text_msg (messages (handleSubmit_resolve (Response 200 (Json empty_reply)) initial_state))
       = [lit ''No response.'']
   \<and> map text_msg (messages (handleSubmit_resolve (Response 200 (Json empty_reply)) initial_state))
       \<noteq> [spec_agent_text empty_reply]"
proof -
  have r: "handleSubmit_resolve (Response 200 (Json empty_reply)) initial_state
           = handleSubmit_apply empty_reply initial_state"
    using ok_200 by (rule resolve_ok)
  have e: "response empty_reply = Some []"
    by (simp add: empty_reply_def)
  have s: "spec_agent_text empty_reply = []"
    by (simp add: spec_agent_text_def e)
  have m: "map text_msg (messages (handleSubmit_apply empty_reply initial_state))
           = [lit ''No response.'']"
    by (simp add: apply_messages e str_or_def initial_state_def)
  have n: "lit ''No response.'' \<noteq> []"
    by (simp add: lit_def)
  show ?thesis
    unfolding r m s using e n ok_200 by simp
qed

text \<open>
  C2, as the code has it. For every failed agent call (\<open>fetch\<close> rejected, a status
  outside 200..299, or a body that is not JSON) the component renders on, and the
  continuation sets the status to error and stores a message, appends nothing to the
  transcript and leaves the map center and the place list as they were. The message is:
  for a status outside 200..299, the \<open>detail\<close> field of the body when it is present
  and not empty, else "Request failed (<status>)", also when the body is \<open>null\<close>;
  for a body that is not JSON on a status in 200..299, and for a rejected \<open>fetch\<close>
  that threw an \<open>Error\<close>, that error's own message; and "Unknown error" only when
  what was thrown is not an \<open>Error\<close>.
\<close>

theorem failed_call_sets_error:
  "(failed out \<longrightarrow>
      handleSubmit_settle (Outcome out) s = Some (handleSubmit_resolve out s)
      \<and> status (handleSubmit_resolve out s) = Error
      \<and> error (handleSubmit_resolve out s) \<noteq> None
      \<and> messages (handleSubmit_resolve out s) = messages s
      \<and> mapCenter (handleSubmit_resolve out s) = mapCenter s
      \<and> mapPlaces (handleSubmit_resolve out s) = mapPlaces s)
   \<and> (\<not> ok st2 \<longrightarrow>
        handleSubmit_settle (NullResponse st2 m2) s =
          Some (s\<lparr>status := Error,
                   error := Some (lit ''Request failed ('' @ decimal st2 @ lit '')'')\<rparr>))
   \<and> (\<not> ok st \<longrightarrow>
        error (handleSubmit_resolve (Response st b) s) =
          Some (case payload_detail b of
                  None \<Rightarrow> lit ''Request failed ('' @ decimal st @ lit '')''
                | Some t \<Rightarrow>
                    if t = [] then lit ''Request failed ('' @ decimal st @ lit '')'' else t))
   \<and> (ok st' \<longrightarrow> error (handleSubmit_resolve (Response st' (Malformed m)) s) = Some m)
   \<and> error (handleSubmit_resolve (Rejected (ErrorObj m)) s) = Some m
   \<and> error (handleSubmit_resolve (Rejected NonError) s) = Some (lit ''Unknown error'')"
proof -
  have 1: "failed out \<longrightarrow>
      handleSubmit_settle (Outcome out) s = Some (handleSubmit_resolve out s)
      \<and> status (handleSubmit_resolve out s) = Error
      \<and> error (handleSubmit_resolve out s) \<noteq> None
      \<and> messages (handleSubmit_resolve out s) = messages s
      \<and> mapCenter (handleSubmit_resolve out s) = mapCenter s
      \<and> mapPlaces (handleSubmit_resolve out s) = mapPlaces s"
    using resolve_failed [of out s] resolve_failed_frame [of out s] settle_outcome [of out s]
    by blast
  have 0: "\<not> ok st2 \<longrightarrow>
        handleSubmit_settle (NullResponse st2 m2) s =
          Some (s\<lparr>status := Error,
                   error := Some (lit ''Request failed ('' @ decimal st2 @ lit '')'')\<rparr>)"
    by (simp add: settle_null_not_ok)
  have 2: "\<not> ok st \<longrightarrow>
        error (handleSubmit_resolve (Response st b) s) =
          Some (case payload_detail b of
                  None \<Rightarrow> lit ''Request failed ('' @ decimal st @ lit '')''
                | Some t \<Rightarrow>
                    if t = [] then lit ''Request failed ('' @ decimal st @ lit '')'' else t)"
    by (simp add: resolve_not_ok catch_fields message_of_def str_or_cases)
  have 3: "ok st' \<longrightarrow> error (handleSubmit_resolve (Response st' (Malformed m)) s) = Some m"
    by (simp add: resolve_malformed catch_fields message_of_def)
  have 4: "error (handleSubmit_resolve (Rejected (ErrorObj m)) s) = Some m"
    by (simp add: resolve_rejected catch_fields message_of_def)
  have 5: "error (handleSubmit_resolve (Rejected NonError) s) = Some (lit ''Unknown error'')"
    by (simp add: resolve_rejected catch_fields message_of_def)
  from 0 1 2 3 4 5 show ?thesis by blast
qed

theorem failed_call_sets_error_witness:
  "failed network_failure
   \<and> \<not> ok 500
   \<and> ok 200
   \<and> status (handleSubmit_resolve network_failure mounted_state) = Error
   \<and> messages (handleSubmit_resolve network_failure mounted_state) = seedMessages (COPY En)
   \<and> mapCenter (handleSubmit_resolve network_failure mounted_state) = None
   \<and> mapPlaces (handleSubmit_resolve network_failure mounted_state) = []
   \<and> error (handleSubmit_resolve (server_error \<lparr>prompt = [], model_name = []\<rparr>) mounted_state)
       = Some (lit ''boom'')
   \<and> error (handleSubmit_resolve (Response 500 (Json empty_reply)) mounted_state)
       = Some (lit ''Request failed (500)'')
   \<and> error (handleSubmit_resolve malformed_ok mounted_state)
       = Some (lit ''Unexpected end of JSON input'')
   \<and> handleSubmit_settle (Outcome network_failure) mounted_state
       = Some (handleSubmit_resolve network_failure mounted_state)
   \<and> handleSubmit_settle (NullResponse 500 []) mounted_state
       = Some (mounted_state\<lparr>status := Error, error := Some (lit ''Request failed (500)'')\<rparr>)"
proof -
  have f: "failed network_failure"
    by (simp add: failed_def network_failure_def)
  have m: "messages mounted_state = seedMessages (COPY En)" "mapCenter mounted_state = None"
    "mapPlaces mounted_state = []"
    by (simp_all add: mounted_state_def loadModels_begin_def seedEffect_def initial_state_def)
  have d: "payload_detail (Json \<lparr>detail = Some (lit ''boom''), response = None, center = None,
                         places = None\<rparr>) = Some (lit ''boom'')"
    "payload_detail (Json empty_reply) = None"
    by (simp_all add: payload_detail_def empty_reply_def)
  have n: "lit ''boom'' \<noteq> []"
    by (simp add: lit_def)
  have r: "lit ''Request failed ('' @ decimal 500 @ lit '')'' = lit ''Request failed (500)''"
    by (simp add: lit_def decimal.simps)
  show ?thesis
    using f not_ok_500 ok_200
      failed_call_sets_error [of network_failure mounted_state 500 "[]" 500
        "Json \<lparr>detail = Some (lit ''boom''), response = None, center = None, places = None\<rparr>"
        200 "lit ''Unexpected end of JSON input''"]
      failed_call_sets_error [of network_failure mounted_state 500 "[]" 500 "Json empty_reply"
        200 "[]"]
    by (simp add: m d n r server_error_def malformed_ok_def)
qed

text \<open>
  C2 as stated fails for a network failure: there is neither a \<open>detail\<close> nor a status
  code, the stored message is the thrown error's own text, not the generic one.
\<close>

theorem network_failure_message_counterexample:
  "failed network_failure
   \<and> spec_failure_message network_failure = lit ''Unknown error''
   \<and> error (handleSubmit_resolve network_failure initial_state) = Some (lit ''Failed to fetch'')
   \<and> error (handleSubmit_resolve network_failure initial_state)
       \<noteq> Some (spec_failure_message network_failure)"
proof -
  have f: "failed network_failure"
    by (simp add: failed_def network_failure_def)
  have s: "spec_failure_message network_failure = lit ''Unknown error''"
    by (simp add: spec_failure_message_def network_failure_def)
  have e: "error (handleSubmit_resolve network_failure initial_state)
           = Some (lit ''Failed to fetch'')"
    by (simp add: network_failure_def resolve_rejected catch_fields message_of_def)
  have n: "lit ''Failed to fetch'' \<noteq> lit ''Unknown error''"
    by (simp add: lit_def)
  show ?thesis
    unfolding e s using f n by simp
qed

section \<open>The seed transcript\<close>

text \<open>
  C6, as the code has it. The page mounts with the three scripted messages of the active
  language. Before the first real submission a change of language replaces the transcript
  wholesale by the three scripted messages of the new language (which differ between the
  languages). The first real submission does not replace them: it appends the user's
  message after them and sets \<open>hasInteracted\<close> (the effect that runs next changes
  nothing); from then on a language change leaves
  the transcript as it is.
\<close>

theorem seed_kept_on_first_submission:
  "(\<not> hasInteracted s \<and> l \<noteq> lang s \<longrightarrow>
      messages (setLang l s) = seedMessages (COPY l))
   \<and> (hasInteracted s' \<or> l = lang s' \<longrightarrow>
        messages (setLang l s') = messages s')
   \<and> (trim (input s'') \<noteq> [] \<longrightarrow>
        messages (seedEffect (fst (handleSubmit_begin s''))) =
          messages s'' @ [\<lparr>role = User, text_msg = trim (input s'')\<rparr>]
        \<and> hasInteracted (seedEffect (fst (handleSubmit_begin s''))))
   \<and> messages mounted_state = seedMessages (COPY En)
   \<and> \<not> hasInteracted mounted_state
   \<and> length (seedMessages t) = 3
   \<and> seedMessages (COPY Tr) \<noteq> seedMessages (COPY En)"
proof -
  have 1: "\<not> hasInteracted s \<and> l \<noteq> lang s \<longrightarrow>
      messages (setLang l s) = seedMessages (COPY l)"
    by (simp add: setLang_def seedEffect_def)
  have 2: "hasInteracted s' \<or> l = lang s' \<longrightarrow>
      messages (setLang l s') = messages s'"
    by (auto simp: setLang_def seedEffect_def)
  have 3: "trim (input s'') \<noteq> [] \<longrightarrow>
        messages (seedEffect (fst (handleSubmit_begin s''))) =
          messages s'' @ [\<lparr>role = User, text_msg = trim (input s'')\<rparr>]
        \<and> hasInteracted (seedEffect (fst (handleSubmit_begin s'')))"
    by (simp add: begin_nonempty seedEffect_interacted)
  have 4: "length (seedMessages t) = 3"
    by (simp add: seedMessages_def)
  from 1 2 3 4 show ?thesis
    using mounted_fields(1,2) seed_languages_differ by blast
qed

theorem seed_kept_on_first_submission_witness:
  "\<not> hasInteracted mounted_state
   \<and> Tr \<noteq> lang mounted_state
   \<and> hasInteracted first_submitted
   \<and> trim (input (setInput (lit ''cafes '') mounted_state)) \<noteq> []
   \<and> messages (setLang Tr mounted_state) = seedMessages (COPY Tr)
   \<and> messages (setLang Tr first_submitted) =
       seedMessages (COPY En) @ [\<lparr>role = User, text_msg = lit ''cafes''\<rparr>]
   \<and> messages (seedEffect (fst (handleSubmit_begin (setInput (lit ''cafes '') mounted_state))))
       = seedMessages (COPY En) @ [\<lparr>role = User, text_msg = lit ''cafes''\<rparr>]
   \<and> length (seedMessages (COPY Tr)) = 3"
proof -
  have n: "trim (input (setInput (lit ''cafes '') mounted_state)) \<noteq> []"
    by (simp add: trim_cafes lit_cafes_nonempty)
  show ?thesis
    using n first_submitted_fields
      seed_kept_on_first_submission [of mounted_state Tr first_submitted
        "setInput (lit ''cafes '') mounted_state" "COPY Tr"]
    by (simp add: mounted_fields setInput_fields trim_cafes)
qed

text \<open>
  C6 as stated fails at the first submission from the mounted page: the transcript then
  still starts with the three seed messages, it is not the user's message alone.
\<close>

theorem seed_not_replaced_counterexample:
  "\<not> hasInteracted (setInput (lit ''cafes '') mounted_state)
   \<and> messages first_submitted =
       seedMessages (COPY En) @ [\<lparr>role = User, text_msg = lit ''cafes''\<rparr>]
   \<and> take 3 (messages first_submitted) = seedMessages (COPY En)
   \<and> messages first_submitted \<noteq> [\<lparr>role = User, text_msg = lit ''cafes''\<rparr>]"
proof -
  have l: "length (seedMessages (COPY En)) = 3"
    by (simp add: seedMessages_def)
  have t: "take 3 (seedMessages (COPY En) @ [\<lparr>role = User, text_msg = lit ''cafes''\<rparr>])
           = seedMessages (COPY En)"
    using l by simp
  have d: "seedMessages (COPY En) @ [\<lparr>role = User, text_msg = lit ''cafes''\<rparr>]
           \<noteq> [\<lparr>role = User, text_msg = lit ''cafes''\<rparr>]"
    using l by (metis append_self_conv2 length_0_conv zero_neq_numeral)
  show ?thesis
    unfolding first_submitted_fields(1) using t d
    by (simp add: setInput_fields mounted_fields)
qed

section \<open>Two calls in flight\<close>

text \<open>
  C9, as the code has it. When two successful responses complete one after the other,
  both are applied in the order of completion, whatever the order of issue: the
  transcript gains the agent message of the one that completed first and then that of
  the one that completed last, and the map center and the place list are those of the
  response that completed last wherever it supplies them (a center with a numeric
  \<open>lat\<close>, an array of places), else those of the earlier one, else what they were. So
  if call #1 resolves after call #2, the final state shows the result of #1.
\<close>

theorem later_completion_wins:
  assumes "ok st1" and "ok st2"
  shows "messages (apply_completions [Response st2 (Json d2), Response st1 (Json d1)] s) =
           messages s @
           [\<lparr>role = Agent, text_msg = str_or (response d2) (lit ''No response.'')\<rparr>,
            \<lparr>role = Agent, text_msg = str_or (response d1) (lit ''No response.'')\<rparr>]
     \<and> mapCenter (apply_completions [Response st2 (Json d2), Response st1 (Json d1)] s) =
           (if has_numeric_lat (center d1) then center d1
            else if has_numeric_lat (center d2) then center d2
            else mapCenter s)
     \<and> mapPlaces (apply_completions [Response st2 (Json d2), Response st1 (Json d1)] s) =
           (case places d1 of
              Some ps \<Rightarrow> ps
            | None \<Rightarrow> (case places d2 of Some ps \<Rightarrow> ps | None \<Rightarrow> mapPlaces s))
     \<and> status (apply_completions [Response st2 (Json d2), Response st1 (Json d1)] s) = Idle"
proof -
  have r: "apply_completions [Response st2 (Json d2), Response st1 (Json d1)] s
           = handleSubmit_apply d1 (handleSubmit_apply d2 s)"
    using assms by (simp add: completions_two resolve_ok)
  show ?thesis
    unfolding r
    by (simp add: apply_messages apply_mapCenter apply_mapPlaces apply_status
        split: option.splits)
qed

theorem later_completion_wins_witness:
  "ok 200
   \<and> messages raced =
       messages both_submitted @
       [\<lparr>role = Agent, text_msg = lit ''two''\<rparr>, \<lparr>role = Agent, text_msg = lit ''one''\<rparr>]
   \<and> mapCenter raced = center reply_one
   \<and> mapPlaces raced = [placeA]
   \<and> status raced = Idle"
proof -
  have c: "has_numeric_lat (center reply_one)"
    by (simp add: has_numeric_lat_def reply_one_def is_number_def)
  have f: "response reply_one = Some (lit ''one'')" "response reply_two = Some (lit ''two'')"
    "places reply_one = Some [placeA]"
    by (simp_all add: reply_one_def reply_two_def)
  have n: "lit ''one'' \<noteq> []" "lit ''two'' \<noteq> []"
    by (simp_all add: lit_def)
  show ?thesis
    using later_completion_wins [OF ok_200 ok_200, of reply_two reply_one both_submitted] c n
    by (simp add: raced_def f str_or_def ok_200)
qed

text \<open>
  C9 as stated fails: call #1 ("a") is issued, then call #2 ("b"), #2 resolves first and
  #1 last; the final place list, center and last agent message are those of #1, not of
  #2.
\<close>

theorem stale_response_counterexample:
  "messages raced =
     seedMessages (COPY En) @
     [\<lparr>role = User, text_msg = lit ''a''\<rparr>, \<lparr>role = User, text_msg = lit ''b''\<rparr>,
      \<lparr>role = Agent, text_msg = lit ''two''\<rparr>, \<lparr>role = Agent, text_msg = lit ''one''\<rparr>]
   \<and> mapPlaces raced = [placeA]
   \<and> places reply_two = Some [placeC]
   \<and> mapPlaces raced \<noteq> [placeC]
   \<and> mapCenter raced \<noteq> center reply_two
   \<and> text_msg (last (messages raced)) = lit ''one''
   \<and> text_msg (last (messages raced)) \<noteq> lit ''two''"
proof -
  have r: "raced = handleSubmit_apply reply_one (handleSubmit_apply reply_two both_submitted)"
    by (simp add: raced_def completions_two resolve_ok ok_200)
  have c: "has_numeric_lat (center reply_one)"
    by (simp add: has_numeric_lat_def reply_one_def is_number_def)
  have p: "mapPlaces raced = [placeA]"
    unfolding r by (simp add: apply_mapPlaces reply_one_def)
  have q: "places reply_two = Some [placeC]"
    by (simp add: reply_two_def)
  have d: "placeA \<noteq> placeC"
    by (simp add: placeA_def placeC_def)
  have m: "mapCenter raced = center reply_one"
    unfolding r using c by (simp add: apply_mapCenter)
  have e: "center reply_one \<noteq> center reply_two"
    by (simp add: reply_one_def reply_two_def)
  have t: "text_msg (last (messages raced)) = lit ''one''"
    unfolding r by (simp add: apply_messages reply_one_def str_or_def lit_def)
  have u: "lit ''one'' \<noteq> lit ''two''"
    by (simp add: lit_def)
  have w: "messages raced =
     seedMessages (COPY En) @
     [\<lparr>role = User, text_msg = lit ''a''\<rparr>, \<lparr>role = User, text_msg = lit ''b''\<rparr>,
      \<lparr>role = Agent, text_msg = lit ''two''\<rparr>, \<lparr>role = Agent, text_msg = lit ''one''\<rparr>]"
    unfolding r
    by (simp add: apply_messages both_submitted_messages reply_one_def reply_two_def
        str_or_def lit_def)
  show ?thesis
    unfolding p m t using w q d e u by simp
qed

section \<open>The model registry\<close>

text \<open>
  C8. For every registry fetch that fails (network error or a status outside 200..299),
  while the component is mounted, the model options end as the empty list whatever they
  were, a non-null error message is set and loading ends; the model identifier is
  unchanged (on the mounted page it is still the default "openai/gpt-4o-mini") and is
  the one the next submission sends. A failure that arrives after unmounting changes
  nothing.
\<close>

theorem registry_failure_clears_options:
  assumes "registry_failed out"
  shows "modelOptions (loadModels_resolve True out s) = []
     \<and> modelsError (loadModels_resolve True out s) \<noteq> None
     \<and> modelsLoading (loadModels_resolve True out s) = False
     \<and> modelName (loadModels_resolve True out s) = modelName s
     \<and> modelName (loadModels_resolve True out mounted_state) = lit ''openai/gpt-4o-mini''
     \<and> (trim (input s) \<noteq> [] \<longrightarrow>
          snd (handleSubmit_begin (loadModels_resolve True out s)) =
            Some \<lparr>prompt = trim (input s), model_name = modelName s\<rparr>)
     \<and> loadModels_resolve False out s = s"
proof -
  let ?r = "loadModels_resolve True out s"
  have m: "?r = s\<lparr>modelOptions := [], modelsError := modelsError ?r, modelsLoading := False\<rparr>"
    and e: "modelsError ?r \<noteq> None"
    using loadModels_failed_state [OF assms, of s] by simp_all
  have 1: "modelOptions ?r = []" by (subst m) simp
  have 3: "modelsLoading ?r = False" by (subst m) simp
  have 4: "modelName ?r = modelName s" by (subst m) simp
  have i: "input ?r = input s" by (subst m) simp
  have 5: "modelName (loadModels_resolve True out mounted_state) = lit ''openai/gpt-4o-mini''"
    using assms by (simp add: loadModels_failed_modelName mounted_fields)
  have 6: "trim (input s) \<noteq> [] \<longrightarrow>
          snd (handleSubmit_begin ?r) = Some \<lparr>prompt = trim (input s), model_name = modelName s\<rparr>"
    using begin_nonempty [of ?r] by (simp add: i 4)
  show ?thesis
    using 1 e 3 4 5 6 loadModels_unmounted [OF assms] by simp
qed

theorem registry_failure_clears_options_witness:
  "registry_failed registry_down
   \<and> trim (input listed_state) \<noteq> []
   \<and> modelOptions listed_state \<noteq> []
   \<and> modelOptions (loadModels_resolve True registry_down listed_state) = []
   \<and> modelsError (loadModels_resolve True registry_down listed_state) \<noteq> None
   \<and> modelName (loadModels_resolve True registry_down listed_state) = lit ''openai/gpt-4o-mini''
   \<and> snd (handleSubmit_begin (loadModels_resolve True registry_down listed_state)) =
       Some \<lparr>prompt = lit ''cafes'', model_name = lit ''openai/gpt-4o-mini''\<rparr>"
proof -
  have f: "registry_failed registry_down"
    by (simp add: registry_failed_def registry_down_def ok_def)
  have t: "trim (input listed_state) = lit ''cafes''"
    unfolding listed_state_def by (rule trim_cafes)
  have n: "modelName listed_state = lit ''openai/gpt-4o-mini''"
    by (simp add: listed_state_def setInput_fields mounted_fields)
  have p: "modelOptions listed_state \<noteq> []"
    by (simp add: listed_state_def setInput_def)
  show ?thesis
    using f p lit_cafes_nonempty registry_failure_clears_options [OF f, of listed_state]
    by (simp add: t n)
qed

section \<open>The view center\<close>

text \<open>
  C4. The view center is not the supplied center when that is valid and the fallback
  center otherwise: each coordinate falls back on its own, and on truthiness. For the
  center (0, 29), whose coordinates are both present and numeric, the \<open>center\<close>
  prop of the map is (41.0082, 29): the
  latitude of the fallback mixed with the supplied longitude, neither the supplied center
  nor the fallback center; and \<open>MapUpdater\<close> does not move the view to it. For the
  center (41.05, null), which is not valid, the prop is (41.05, 28.9784), again a mix.
\<close>

theorem view_center_mixed_at_zero:
  "is_number (lat equator_center) \<and> is_number (lon equator_center)
   \<and> spec_viewCenter (Some equator_center) = (JNum 0, JNum 29)
   \<and> containerCenter (Some equator_center) = (JNum 41.0082, JNum 29)
   \<and> containerCenter (Some equator_center) \<noteq> spec_viewCenter (Some equator_center)
   \<and> containerCenter (Some equator_center) \<noteq> DEFAULT_CENTER
   \<and> mountView (Some equator_center) = \<lparr>view_center = (JNum 41.0082, JNum 29), view_zoom = 12\<rparr>
   \<and> MapUpdater (Some equator_center) m = m
   \<and> spec_viewCenter (Some partial_center) = DEFAULT_CENTER
   \<and> containerCenter (Some partial_center) = (JNum 41.05, JNum 28.9784)
   \<and> containerCenter (Some partial_center) \<noteq> spec_viewCenter (Some partial_center)"
proof -
  have 1: "is_number (lat equator_center) \<and> is_number (lon equator_center)"
    by (simp add: equator_center_def is_number_def)
  have 2: "spec_viewCenter (Some equator_center) = (JNum 0, JNum 29)"
    by (simp add: spec_viewCenter_def equator_center_def is_number_def)
  have 3: "containerCenter (Some equator_center) = (JNum 41.0082, JNum 29)"
    by (simp add: containerCenter_def opt_lat_def opt_lon_def js_or_def truthy_def
        equator_center_def)
  have 4: "MapUpdater (Some equator_center) v = v" for v
    by (simp add: MapUpdater_def opt_lat_def truthy_def equator_center_def)
  have 5: "spec_viewCenter (Some partial_center) = DEFAULT_CENTER"
    by (simp add: spec_viewCenter_def partial_center_def is_number_def)
  have 6: "containerCenter (Some partial_center) = (JNum 41.05, JNum 28.9784)"
    by (simp add: containerCenter_def opt_lat_def opt_lon_def js_or_def truthy_def
        partial_center_def)
  show ?thesis
    unfolding 2 3 5 6 using 1 4 by (simp add: mountView_def 3 DEFAULT_CENTER_def)
qed

end
